theory Spec2Isabelle
  imports Main
begin

section \<open>The Great Expectations validation task\<close>

text \<open>
  A shallow embedding of \<^verbatim>\<open>RunGreatExpectationsValidation.run\<close>
  (\<^verbatim>\<open>src/prefect/tasks/great_expectations/checkpoints.py\<close>).

  The method is glue code around an external validation engine. The engine, the renderer
  and the artifact backend are a record of fallible functions (\<open>Inl\<close> is the exception
  the call raises). The method itself returns the list of external calls it made, in order,
  together with its outcome: \<open>Inl\<close> for whatever it raises, \<open>Inr\<close> for the value it returns.
\<close>

subsection \<open>Data\<close>

text \<open>
  A Python value that is \<^verbatim>\<open>None\<close> or a string is a \<open>string option\<close>; a dictionary is an
  association list whose values the task never inspects. Objects owned by the engine are
  opaque handles.
\<close>

type_synonym kwargs = "(string \<times> string) list"

datatype ctx = Ctx nat
datatype suite = Suite nat
datatype batch = Batch nat
datatype doc = Doc nat
datatype exn = Exn string

text \<open>
  The operator result: the task reads only its attribute \<^verbatim>\<open>success\<close>, and compares it
  with \<^verbatim>\<open>is False\<close>; \<open>None\<close> stands for a value that is neither \<^verbatim>\<open>True\<close> nor
  \<^verbatim>\<open>False\<close>.
\<close>

record results =
  success :: "bool option"
  details :: nat

text \<open>
  A checkpoint is the dictionary \<^verbatim>\<open>get_checkpoint\<close> returns; the task subscripts
  \<^verbatim>\<open>"batches"\<close> and \<^verbatim>\<open>"validation_operator_name"\<close>, and in every batch
  \<^verbatim>\<open>"batch_kwargs"\<close> and \<^verbatim>\<open>"expectation_suite_names"\<close>. These keys are taken to be present.
\<close>

record batch_decl =
  decl_batch_kwargs :: "kwargs option"
  decl_expectation_suite_names :: "string list"

record checkpoint =
  cp_batches :: "batch_decl list"
  cp_validation_operator_name :: string

text \<open>
  \<^verbatim>\<open>get_batch\<close> receives a suite object on the checkpoint path and the suite's name (the
  argument \<^verbatim>\<open>expectation_suite_name\<close> as it is) on the suite + batch path.
\<close>

datatype suite_arg = Suite_name "string option" | Suite_obj suite

text \<open>
  The arguments of \<^verbatim>\<open>run\<close>, after \<^verbatim>\<open>defaults_from_attrs\<close> has filled them in. The field
  \<open>context_opt\<close> is the argument \<^verbatim>\<open>context\<close>: a context object is truthy, so
  \<^verbatim>\<open>not context\<close> holds exactly when it is \<open>None\<close>.
\<close>

record args =
  checkpoint_name :: "string option"
  context_opt :: "ctx option"
  assets_to_validate :: "batch list option"
  batch_kwargs :: "kwargs option"
  expectation_suite_name :: "string option"
  context_root_dir :: "string option"
  runtime_environment :: "kwargs option"
  run_name :: "string option"
  run_info_at_end :: bool
  disable_markdown_artifact :: bool
  validation_operator :: string
  evaluation_parameters :: "kwargs option"

text \<open>
  Everything outside the method: the engine's constructor and context methods, the renderer
  (constructed with \<^verbatim>\<open>run_info_at_end\<close>) and the markdown view, the artifact backend, and
  the entry \<^verbatim>\<open>task_slug\<close> of the workflow context.
\<close>

record engine =
  DataContext :: "string option \<Rightarrow> kwargs \<Rightarrow> exn + ctx"
  get_checkpoint :: "ctx \<Rightarrow> string option \<Rightarrow> exn + checkpoint"
  get_expectation_suite :: "ctx \<Rightarrow> string \<Rightarrow> exn + suite"
  get_batch :: "ctx \<Rightarrow> kwargs option \<Rightarrow> suite_arg \<Rightarrow> exn + batch"
  run_validation_operator ::
    "ctx \<Rightarrow> string \<Rightarrow> batch list \<Rightarrow> string option \<Rightarrow> kwargs option \<Rightarrow> exn + results"
  render_validation_operator_result :: "bool \<Rightarrow> results \<Rightarrow> exn + doc list"
  render_view :: "doc list \<Rightarrow> exn + string list"
  create_markdown_artifact :: "string \<Rightarrow> exn + unit"
  task_slug :: "string option"

text \<open>One constructor per external call, with the arguments of the call.\<close>

datatype call =
  New_DataContext "string option" kwargs
| Get_checkpoint ctx "string option"
| Get_expectation_suite ctx string
| Get_batch ctx "kwargs option" suite_arg
| Run_validation_operator ctx string "batch list" "string option" "kwargs option"
| Render_validation_operator_result bool results
| Render_view "doc list"
| Create_markdown_artifact string

text \<open>What \<^verbatim>\<open>run\<close> raises: its own two errors, or an exception of an external call.\<close>

datatype error = ValueError string | FAIL results | Raised exn

type_synonym 'a io = "call list \<times> (error + 'a)"

subsection \<open>Sequencing\<close>

definition ret :: "'a \<Rightarrow> 'a io" where
  "ret x = ([], Inr x)"

definition raise :: "error \<Rightarrow> 'a io" where
  "raise e = ([], Inl e)"

definition bind :: "'a io \<Rightarrow> ('a \<Rightarrow> 'b io) \<Rightarrow> 'b io" where
  "bind m f =
     (case m of
        (t, Inl e) \<Rightarrow> (t, Inl e)
      | (t, Inr x) \<Rightarrow> (case f x of (t', r) \<Rightarrow> (t @ t', r)))"

text \<open>An external call is logged; its exception, if any, is raised as it is.\<close>

definition extern :: "call \<Rightarrow> exn + 'a \<Rightarrow> 'a io" where
  "extern c r = ([c], case r of Inl x \<Rightarrow> Inl (Raised x) | Inr v \<Rightarrow> Inr v)"

subsection \<open>Truthiness\<close>

definition truthy_str :: "string option \<Rightarrow> bool" where
  "truthy_str s = (case s of None \<Rightarrow> False | Some v \<Rightarrow> v \<noteq> [])"

definition truthy_dict :: "kwargs option \<Rightarrow> bool" where
  "truthy_dict d = (case d of None \<Rightarrow> False | Some v \<Rightarrow> v \<noteq> [])"

definition truthy_list :: "'a list option \<Rightarrow> bool" where
  "truthy_list l = (case l of None \<Rightarrow> False | Some v \<Rightarrow> v \<noteq> [])"

subsection \<open>The method\<close>

text \<open>
  \<^verbatim>\<open>sum(bool(x) for x in [(expectation_suite_name and batch_kwargs), assets_to_validate,
  checkpoint_name])\<close>: the first entry is truthy when both operands are.
\<close>

definition supplied_modes :: "args \<Rightarrow> nat" where
  "supplied_modes a =
     sum_list (map of_bool
       [truthy_str (expectation_suite_name a) \<and> truthy_dict (batch_kwargs a),
        truthy_list (assets_to_validate a),
        truthy_str (checkpoint_name a)])"

definition exclusive_message :: string where
  "exclusive_message =
     ''Exactly one of expectation_suite_name + batch_kwargs, assets_to_validate, or '' @
     ''checkpoint_name is required to run validation.''"

text \<open>\<^verbatim>\<open>runtime_environment or dict()\<close>, then the context when none was passed.\<close>

definition or_dict :: "kwargs option \<Rightarrow> kwargs" where
  "or_dict d = (if truthy_dict d then the d else [])"

definition load_context :: "engine \<Rightarrow> args \<Rightarrow> ctx io" where
  "load_context E a =
     (case context_opt a of
        Some c \<Rightarrow> ret c
      | None \<Rightarrow>
          extern (New_DataContext (context_root_dir a) (or_dict (runtime_environment a)))
            (DataContext E (context_root_dir a) (or_dict (runtime_environment a))))"

text \<open>
  The inner loop over \<^verbatim>\<open>batch["expectation_suite_names"]\<close> and the outer loop over
  \<^verbatim>\<open>ge_checkpoint["batches"]\<close>; the accumulator is \<^verbatim>\<open>assets_to_validate\<close>. The inner loop
  rebinds the name \<^verbatim>\<open>batch\<close> to the batch it loaded; the list of suite names it iterates
  and \<^verbatim>\<open>batch_kwargs\<close> were read before, so every iteration uses the kwargs and the names of
  the declared batch.
\<close>

fun load_suites ::
  "engine \<Rightarrow> ctx \<Rightarrow> kwargs option \<Rightarrow> string list \<Rightarrow> batch list \<Rightarrow> batch list io" where
  "load_suites E c kw [] acc = ret acc"
| "load_suites E c kw (suite_name # ns) acc =
     bind (extern (Get_expectation_suite c suite_name) (get_expectation_suite E c suite_name))
       (\<lambda>suite.
          bind (extern (Get_batch c kw (Suite_obj suite)) (get_batch E c kw (Suite_obj suite)))
            (\<lambda>b. load_suites E c kw ns (acc @ [b])))"

fun load_batches :: "engine \<Rightarrow> ctx \<Rightarrow> batch_decl list \<Rightarrow> batch list \<Rightarrow> batch list io" where
  "load_batches E c [] acc = ret acc"
| "load_batches E c (d # ds) acc =
     bind (load_suites E c (decl_batch_kwargs d) (decl_expectation_suite_names d) acc)
       (\<lambda>acc'. load_batches E c ds acc')"

text \<open>
  The block \<^verbatim>\<open>if not assets_to_validate:\<close>: it yields the assets and the operator name
  that the operator is then run with.
\<close>

definition load_assets :: "engine \<Rightarrow> args \<Rightarrow> ctx \<Rightarrow> (batch list \<times> string) io" where
  "load_assets E a c =
     (if \<not> truthy_list (assets_to_validate a) then
        if truthy_str (checkpoint_name a) then
          bind (extern (Get_checkpoint c (checkpoint_name a))
                  (get_checkpoint E c (checkpoint_name a)))
            (\<lambda>ge_checkpoint.
               bind (load_batches E c (cp_batches ge_checkpoint) [])
                 (\<lambda>assets. ret (assets, cp_validation_operator_name ge_checkpoint)))
        else
          bind (extern (Get_batch c (batch_kwargs a) (Suite_name (expectation_suite_name a)))
                  (get_batch E c (batch_kwargs a) (Suite_name (expectation_suite_name a))))
            (\<lambda>b. ret ([] @ [b], validation_operator a))
      else ret (the (assets_to_validate a), validation_operator a))"

text \<open>\<^verbatim>\<open>run_name or prefect.context.get("task_slug")\<close>.\<close>

definition run_id :: "engine \<Rightarrow> args \<Rightarrow> string option" where
  "run_id E a = (if truthy_str (run_name a) then run_name a else task_slug E)"

text \<open>\<^verbatim>\<open>" ".join(...)\<close>.\<close>

fun join_space :: "string list \<Rightarrow> string" where
  "join_space [] = []"
| "join_space [s] = s"
| "join_space (s # t # ss) = s @ '' '' @ join_space (t # ss)"

text \<open>
  The block \<^verbatim>\<open>if not disable_markdown_artifact:\<close>. Its first statement assigns
  \<^verbatim>\<open>run_info_at_end = True\<close>, so the renderer is built with \<open>True\<close>.
\<close>

definition generate_artifact :: "engine \<Rightarrow> args \<Rightarrow> results \<Rightarrow> unit io" where
  "generate_artifact E a res =
     (if \<not> disable_markdown_artifact a then
        (let run_info_at_end = True in
         bind (extern (Render_validation_operator_result run_info_at_end res)
                 (render_validation_operator_result E run_info_at_end res))
           (\<lambda>rendered_document_content_list.
              bind (extern (Render_view rendered_document_content_list)
                      (render_view E rendered_document_content_list))
                (\<lambda>parts.
                   extern (Create_markdown_artifact (join_space parts))
                     (create_markdown_artifact E (join_space parts)))))
      else ret ())"

definition run :: "engine \<Rightarrow> args \<Rightarrow> results io" where
  "run E a =
     bind (load_context E a)
       (\<lambda>c. if supplied_modes a \<noteq> 1 then raise (ValueError exclusive_message)
            else
              bind (load_assets E a c)
                (\<lambda>(assets, operator).
                   bind (extern
                           (Run_validation_operator c operator assets (run_id E a)
                              (evaluation_parameters a))
                           (run_validation_operator E c operator assets (run_id E a)
                              (evaluation_parameters a)))
                     (\<lambda>res.
                        bind (generate_artifact E a res)
                          (\<lambda>_. if success res = Some False then raise (FAIL res)
                               else ret res))))"

subsection \<open>Predicates on runs\<close>

text \<open>
  The calls made while resolving the inputs, and the calls of the artifact block.
\<close>

definition trace_all :: "(call \<Rightarrow> bool) \<Rightarrow> 'a io \<Rightarrow> bool" where
  "trace_all P m = (\<forall>k \<in> set (fst m). P k)"

fun is_lookup :: "call \<Rightarrow> bool" where
  "is_lookup (New_DataContext d r) = True"
| "is_lookup (Get_checkpoint c n) = True"
| "is_lookup (Get_expectation_suite c n) = True"
| "is_lookup (Get_batch c kw s) = True"
| "is_lookup _ = False"

fun is_render :: "call \<Rightarrow> bool" where
  "is_render (Render_validation_operator_result b r) = True"
| "is_render (Render_view ds) = True"
| "is_render (Create_markdown_artifact md) = True"
| "is_render _ = False"

text \<open>The exception an external call raises, read off the engine.\<close>

fun failure :: "exn + 'a \<Rightarrow> exn option" where
  "failure (Inl x) = Some x"
| "failure (Inr v) = None"

fun raises :: "engine \<Rightarrow> call \<Rightarrow> exn option" where
  "raises E (New_DataContext root env) = failure (DataContext E root env)"
| "raises E (Get_checkpoint c n) = failure (get_checkpoint E c n)"
| "raises E (Get_expectation_suite c n) = failure (get_expectation_suite E c n)"
| "raises E (Get_batch c kw s) = failure (get_batch E c kw s)"
| "raises E (Run_validation_operator c operator bs rid ep) =
     failure (run_validation_operator E c operator bs rid ep)"
| "raises E (Render_validation_operator_result info r) =
     failure (render_validation_operator_result E info r)"
| "raises E (Render_view ds) = failure (render_view E ds)"
| "raises E (Create_markdown_artifact md) = failure (create_markdown_artifact E md)"

definition propagates :: "engine \<Rightarrow> 'a io \<Rightarrow> bool" where
  "propagates E m =
     ((\<forall>k \<in> set (fst m). \<forall>x. raises E k = Some x \<longrightarrow> snd m = Inl (Raised x)) \<and>
      (\<forall>x. snd m = Inl (Raised x) \<longrightarrow> (\<exists>k \<in> set (fst m). raises E k = Some x)))"

text \<open>A condition on the error a computation may end in.\<close>

definition fails_only :: "(error \<Rightarrow> bool) \<Rightarrow> 'a io \<Rightarrow> bool" where
  "fails_only P m = (\<forall>e. snd m = Inl e \<longrightarrow> P e)"

text \<open>
  The pairings a checkpoint declares, in the order of its batches and, within each, of
  its suite names; and what it is for a batch to be the one loaded for a pairing.
\<close>

definition declared_pairs :: "checkpoint \<Rightarrow> (kwargs option \<times> string) list" where
  "declared_pairs cp =
     concat (map (\<lambda>d. map (\<lambda>n. (decl_batch_kwargs d, n)) (decl_expectation_suite_names d))
               (cp_batches cp))"

definition loaded :: "engine \<Rightarrow> ctx \<Rightarrow> kwargs option \<times> string \<Rightarrow> batch \<Rightarrow> bool" where
  "loaded E c p b =
     (case get_expectation_suite E c (snd p) of
        Inl x \<Rightarrow> False
      | Inr s \<Rightarrow> get_batch E c (fst p) (Suite_obj s) = Inr b)"

subsection \<open>A concrete engine and concrete arguments\<close>

text \<open>
  \<open>default_args\<close> are the defaults of the signature of \<^verbatim>\<open>run\<close>. The concrete engine knows
  one checkpoint and two suites; a validation fails when the January batch is checked
  against the suite \<^verbatim>\<open>failure\<close>; the renderer adds a run-info section when asked to.
\<close>

definition default_args :: args where
  "default_args =
     \<lparr>checkpoint_name = None, context_opt = None, assets_to_validate = None,
      batch_kwargs = None, expectation_suite_name = None, context_root_dir = None,
      runtime_environment = None, run_name = None, run_info_at_end = True,
      disable_markdown_artifact = False, validation_operator = ''action_list_operator'',
      evaluation_parameters = None\<rparr>"

definition demo_checkpoint :: checkpoint where
  "demo_checkpoint =
     \<lparr>cp_batches =
        [\<lparr>decl_batch_kwargs = Some [(''path'', ''jan.csv'')],
          decl_expectation_suite_names = [''warning'', ''failure'']\<rparr>,
         \<lparr>decl_batch_kwargs = Some [(''path'', ''feb.csv'')],
          decl_expectation_suite_names = [''warning'']\<rparr>],
      cp_validation_operator_name = ''checkpoint_operator''\<rparr>"

definition demo_engine :: engine where
  "demo_engine =
     \<lparr>DataContext = (\<lambda>root env. Inr (Ctx 0)),
      get_checkpoint =
        (\<lambda>c n. if n = Some ''nightly'' then Inr demo_checkpoint
                else Inl (Exn ''checkpoint not found'')),
      get_expectation_suite =
        (\<lambda>c n. if n = ''warning'' then Inr (Suite 1)
                else if n = ''failure'' then Inr (Suite 2)
                else Inl (Exn ''suite not found'')),
      get_batch =
        (\<lambda>c kw s.
           Inr (Batch ((if kw = Some [(''path'', ''jan.csv'')] then 10 else 20) +
                       (case s of Suite_obj (Suite i) \<Rightarrow> i | Suite_name n \<Rightarrow> 0)))),
      run_validation_operator =
        (\<lambda>c operator bs rid ep.
           Inr \<lparr>success = Some (Batch 12 \<notin> set bs), details = length bs\<rparr>),
      render_validation_operator_result =
        (\<lambda>info r. Inr (if info then [Doc (details r), Doc 99] else [Doc (details r)])),
      render_view =
        (\<lambda>ds. Inr (map (\<lambda>d. if d = Doc 99 then ''run-info'' else ''validation-results'') ds)),
      create_markdown_artifact = (\<lambda>md. Inr ()),
      task_slug = Some ''validate-1''\<rparr>"

definition suite_args :: args where
  "suite_args =
     default_args\<lparr>context_opt := Some (Ctx 7), batch_kwargs := Some [(''path'', ''jan.csv'')],
       expectation_suite_name := Some ''warning''\<rparr>"

definition checkpoint_args :: args where
  "checkpoint_args = default_args\<lparr>context_opt := Some (Ctx 7), checkpoint_name := Some ''nightly''\<rparr>"

definition suite_only_args :: args where
  "suite_only_args =
     default_args\<lparr>context_opt := Some (Ctx 7), expectation_suite_name := Some ''warning''\<rparr>"

definition suite_and_checkpoint_args :: args where
  "suite_and_checkpoint_args = checkpoint_args\<lparr>expectation_suite_name := Some ''warning''\<rparr>"

text \<open>
  Two engines that differ from the first in one answer each: the store of artifacts of
  \<open>offline_engine\<close> refuses every artifact, and \<open>no_project_engine\<close> finds no project to
  build a validation context from. \<open>suite_name_args\<close> name a suite and nothing else, not
  even a context; \<open>suite_batch_and_checkpoint_args\<close> name a suite, its batch and a
  checkpoint.
\<close>

definition offline_engine :: engine where
  "offline_engine =
     demo_engine\<lparr>create_markdown_artifact := (\<lambda>md. Inl (Exn ''artifact backend unavailable''))\<rparr>"

definition no_project_engine :: engine where
  "no_project_engine =
     demo_engine\<lparr>DataContext := (\<lambda>root env. Inl (Exn ''no project configuration found''))\<rparr>"

definition suite_name_args :: args where
  "suite_name_args = default_args\<lparr>expectation_suite_name := Some ''warning''\<rparr>"

definition suite_batch_and_checkpoint_args :: args where
  "suite_batch_and_checkpoint_args = suite_args\<lparr>checkpoint_name := Some ''nightly''\<rparr>"

section \<open>Properties\<close>

subsection \<open>Sequencing and traces\<close>

lemma fst_bind: "fst (bind m f) = (case snd m of Inl e \<Rightarrow> fst m | Inr x \<Rightarrow> fst m @ fst (f x))"
  by (cases m) (simp add: bind_def split: sum.splits prod.splits)

lemma snd_bind: "snd (bind m f) = (case snd m of Inl e \<Rightarrow> Inl e | Inr x \<Rightarrow> snd (f x))"
  by (cases m) (simp add: bind_def split: sum.splits prod.splits)

lemma fst_extern: "fst (extern k r) = [k]"
  by (simp add: extern_def)

lemma snd_extern: "snd (extern k r) = (case r of Inl x \<Rightarrow> Inl (Raised x) | Inr v \<Rightarrow> Inr v)"
  by (simp add: extern_def)

lemma trace_all_ret: "trace_all P (ret x)"
  by (simp add: trace_all_def ret_def)

lemma trace_all_raise: "trace_all P (raise e)"
  by (simp add: trace_all_def raise_def)

lemma trace_all_extern: "P k \<Longrightarrow> trace_all P (extern k r)"
  by (simp add: trace_all_def extern_def)

lemma trace_all_bind:
  "trace_all P m \<Longrightarrow> (\<And>x. trace_all P (f x)) \<Longrightarrow> trace_all P (bind m f)"
  by (auto simp: trace_all_def fst_bind split: sum.splits)

lemma load_context_lookup: "trace_all is_lookup (load_context E a)"
  by (simp add: load_context_def trace_all_ret trace_all_extern split: option.splits)

lemma load_suites_lookup: "trace_all is_lookup (load_suites E c kw ns acc)"
  by (induction ns arbitrary: acc) (simp_all add: trace_all_ret trace_all_bind trace_all_extern)

lemma load_batches_lookup: "trace_all is_lookup (load_batches E c ds acc)"
  by (induction ds arbitrary: acc) (simp_all add: trace_all_ret trace_all_bind load_suites_lookup)

lemma load_assets_lookup: "trace_all is_lookup (load_assets E a c)"
  by (simp add: load_assets_def trace_all_ret trace_all_bind trace_all_extern load_batches_lookup)

lemma generate_artifact_render: "trace_all is_render (generate_artifact E a r)"
  by (simp add: generate_artifact_def Let_def trace_all_ret trace_all_bind trace_all_extern)

lemma generate_artifact_disabled:
  "disable_markdown_artifact a \<Longrightarrow> generate_artifact E a r = ret ()"
  by (simp add: generate_artifact_def)

lemma trace_all_mono: "trace_all P m \<Longrightarrow> (\<And>k. P k \<Longrightarrow> Q k) \<Longrightarrow> trace_all Q m"
  by (simp add: trace_all_def)

lemma is_lookup_not_render: "is_lookup k \<Longrightarrow> \<not> is_render k"
  by (cases k) simp_all

lemma bind_ret: "bind (ret x) f = f x"
  by (simp add: bind_def ret_def)

subsection \<open>The run, phase by phase\<close>

lemma run_context_fails:
  "snd (load_context E a) = Inl e \<Longrightarrow> run E a = (fst (load_context E a), Inl e)"
  by (simp add: run_def prod_eq_iff fst_bind snd_bind)

lemma run_rejected:
  "snd (load_context E a) = Inr c \<Longrightarrow> supplied_modes a \<noteq> 1 \<Longrightarrow>
   run E a = (fst (load_context E a), Inl (ValueError exclusive_message))"
  by (simp add: run_def prod_eq_iff fst_bind snd_bind raise_def)

lemma run_assets_fail:
  "snd (load_context E a) = Inr c \<Longrightarrow> supplied_modes a = 1 \<Longrightarrow>
   snd (load_assets E a c) = Inl e \<Longrightarrow>
   run E a = (fst (load_context E a) @ fst (load_assets E a c), Inl e)"
  by (simp add: run_def prod_eq_iff fst_bind snd_bind)

lemma run_operator_fails:
  "snd (load_context E a) = Inr c \<Longrightarrow> supplied_modes a = 1 \<Longrightarrow>
   snd (load_assets E a c) = Inr (bs, operator) \<Longrightarrow>
   run_validation_operator E c operator bs (run_id E a) (evaluation_parameters a) = Inl x \<Longrightarrow>
   run E a =
     (fst (load_context E a) @ fst (load_assets E a c) @
        [Run_validation_operator c operator bs (run_id E a) (evaluation_parameters a)],
      Inl (Raised x))"
  by (simp add: run_def prod_eq_iff fst_bind snd_bind fst_extern snd_extern)

lemma run_operator_returns:
  "snd (load_context E a) = Inr c \<Longrightarrow> supplied_modes a = 1 \<Longrightarrow>
   snd (load_assets E a c) = Inr (bs, operator) \<Longrightarrow>
   run_validation_operator E c operator bs (run_id E a) (evaluation_parameters a) = Inr r \<Longrightarrow>
   run E a =
     (fst (load_context E a) @ fst (load_assets E a c) @
        [Run_validation_operator c operator bs (run_id E a) (evaluation_parameters a)] @
        fst (generate_artifact E a r),
      case snd (generate_artifact E a r) of
        Inl e \<Rightarrow> Inl e
      | Inr u \<Rightarrow> if success r = Some False then Inl (FAIL r) else Inr r)"
  by (simp add: run_def prod_eq_iff fst_bind snd_bind fst_extern snd_extern raise_def ret_def
      split: sum.splits)

lemma operator_call_in_run:
  assumes "Run_validation_operator c operator bs rid ep \<in> set (fst (run E a))"
  shows "snd (load_context E a) = Inr c \<and> supplied_modes a = 1 \<and>
         snd (load_assets E a c) = Inr (bs, operator) \<and>
         rid = run_id E a \<and> ep = evaluation_parameters a"
proof -
  let ?k = "Run_validation_operator c operator bs rid ep"
  have not_lookup: "\<not> is_lookup ?k" and not_render: "\<not> is_render ?k"
    by simp_all
  have ctx_free: "?k \<notin> set (fst (load_context E a))"
    using load_context_lookup [of E a] not_lookup unfolding trace_all_def by blast
  have assets_free: "?k \<notin> set (fst (load_assets E a c'))" for c'
    using load_assets_lookup [of E a c'] not_lookup unfolding trace_all_def by blast
  have artifact_free: "?k \<notin> set (fst (generate_artifact E a r))" for r
    using generate_artifact_render [of E a r] not_render unfolding trace_all_def by blast
  show ?thesis
  proof (cases "snd (load_context E a)")
    case (Inl e)
    with assms ctx_free show ?thesis by (simp add: run_context_fails)
  next
    case ctx: (Inr c')
    show ?thesis
    proof (cases "supplied_modes a = 1")
      case False
      with assms ctx ctx_free show ?thesis by (simp add: run_rejected)
    next
      case one: True
      show ?thesis
      proof (cases "snd (load_assets E a c')")
        case (Inl e)
        with assms ctx one ctx_free assets_free show ?thesis by (simp add: run_assets_fail)
      next
        case (Inr p)
        obtain bs' op' where p: "p = (bs', op')" by (cases p)
        let ?k' = "Run_validation_operator c' op' bs' (run_id E a) (evaluation_parameters a)"
        have "?k = ?k'"
        proof (cases "run_validation_operator E c' op' bs' (run_id E a) (evaluation_parameters a)")
          case (Inl x)
          with assms ctx one Inr p ctx_free assets_free show ?thesis
            by (simp add: run_operator_fails)
        next
          case res: (Inr r)
          with assms ctx one Inr p ctx_free assets_free artifact_free [of r] show ?thesis
            by (simp add: run_operator_returns)
        qed
        with ctx one Inr p show ?thesis by simp
      qed
    qed
  qed
qed

lemma run_operator_called:
  assumes "snd (load_context E a) = Inr c" "supplied_modes a = 1"
    "snd (load_assets E a c) = Inr (bs, operator)"
  shows "Run_validation_operator c operator bs (run_id E a) (evaluation_parameters a)
           \<in> set (fst (run E a))"
proof (cases "run_validation_operator E c operator bs (run_id E a) (evaluation_parameters a)")
  case (Inl x)
  with assms show ?thesis by (simp add: run_operator_fails)
next
  case (Inr r)
  with assms show ?thesis by (simp add: run_operator_returns)
qed

lemma generate_artifact_outcome:
  "snd (generate_artifact E a r) =
     (if disable_markdown_artifact a then Inr ()
      else case render_validation_operator_result E True r of
             Inl x \<Rightarrow> Inl (Raised x)
           | Inr ds \<Rightarrow>
               (case render_view E ds of
                  Inl x \<Rightarrow> Inl (Raised x)
                | Inr parts \<Rightarrow>
                    (case create_markdown_artifact E (join_space parts) of
                       Inl x \<Rightarrow> Inl (Raised x)
                     | Inr u \<Rightarrow> Inr ())))"
  by (simp add: generate_artifact_def ret_def snd_bind snd_extern split: sum.splits)

lemma run_after_operator:
  assumes "Run_validation_operator c operator bs rid ep \<in> set (fst (run E a))"
    and "run_validation_operator E c operator bs rid ep = Inr r"
  shows "\<exists>pre. run E a =
     (pre @ [Run_validation_operator c operator bs rid ep] @ fst (generate_artifact E a r),
      case snd (generate_artifact E a r) of
        Inl e \<Rightarrow> Inl e
      | Inr u \<Rightarrow> if success r = Some False then Inl (FAIL r) else Inr r)"
proof -
  from operator_call_in_run [OF assms(1)]
  have ctx: "snd (load_context E a) = Inr c" and one: "supplied_modes a = 1"
    and assets: "snd (load_assets E a c) = Inr (bs, operator)"
    and rid: "rid = run_id E a" and ep: "ep = evaluation_parameters a"
    by simp_all
  from assms(2) have "run_validation_operator E c operator bs (run_id E a)
      (evaluation_parameters a) = Inr r"
    by (simp add: rid ep)
  from run_operator_returns [OF ctx one assets this] show ?thesis
    unfolding rid ep by (intro exI [of _ "fst (load_context E a) @ fst (load_assets E a c)"]) simp
qed

subsection \<open>The concrete runs\<close>

lemmas demo_defs = default_args_def demo_checkpoint_def demo_engine_def suite_args_def
  checkpoint_args_def suite_only_args_def suite_and_checkpoint_args_def
lemmas run_defs = run_def load_context_def load_assets_def generate_artifact_def run_id_def
  supplied_modes_def truthy_str_def truthy_dict_def truthy_list_def or_dict_def bind_def
  ret_def raise_def extern_def

lemma run_suite:
  "run demo_engine suite_args =
    ([Get_batch (Ctx 7) (Some [(''path'', ''jan.csv'')]) (Suite_name (Some ''warning'')),
      Run_validation_operator (Ctx 7) ''action_list_operator'' [Batch 10] (Some ''validate-1'') None,
      Render_validation_operator_result True \<lparr>success = Some True, details = 1\<rparr>,
      Render_view [Doc 1, Doc 99],
      Create_markdown_artifact ''validation-results run-info''],
     Inr \<lparr>success = Some True, details = 1\<rparr>)"
  by (simp add: demo_defs run_defs)

lemma run_checkpoint:
  "run demo_engine checkpoint_args =
    ([Get_checkpoint (Ctx 7) (Some ''nightly''),
      Get_expectation_suite (Ctx 7) ''warning'',
      Get_batch (Ctx 7) (Some [(''path'', ''jan.csv'')]) (Suite_obj (Suite 1)),
      Get_expectation_suite (Ctx 7) ''failure'',
      Get_batch (Ctx 7) (Some [(''path'', ''jan.csv'')]) (Suite_obj (Suite 2)),
      Get_expectation_suite (Ctx 7) ''warning'',
      Get_batch (Ctx 7) (Some [(''path'', ''feb.csv'')]) (Suite_obj (Suite 1)),
      Run_validation_operator (Ctx 7) ''checkpoint_operator''
        [Batch 11, Batch 12, Batch 21] (Some ''validate-1'') None,
      Render_validation_operator_result True \<lparr>success = Some False, details = 3\<rparr>,
      Render_view [Doc 3, Doc 99],
      Create_markdown_artifact ''validation-results run-info''],
     Inl (FAIL \<lparr>success = Some False, details = 3\<rparr>))"
  by (simp add: demo_defs run_defs)

lemmas more_defs = offline_engine_def no_project_engine_def suite_name_args_def
  suite_batch_and_checkpoint_args_def

lemma run_offline_checkpoint:
  "run offline_engine checkpoint_args =
    ([Get_checkpoint (Ctx 7) (Some ''nightly''),
      Get_expectation_suite (Ctx 7) ''warning'',
      Get_batch (Ctx 7) (Some [(''path'', ''jan.csv'')]) (Suite_obj (Suite 1)),
      Get_expectation_suite (Ctx 7) ''failure'',
      Get_batch (Ctx 7) (Some [(''path'', ''jan.csv'')]) (Suite_obj (Suite 2)),
      Get_expectation_suite (Ctx 7) ''warning'',
      Get_batch (Ctx 7) (Some [(''path'', ''feb.csv'')]) (Suite_obj (Suite 1)),
      Run_validation_operator (Ctx 7) ''checkpoint_operator''
        [Batch 11, Batch 12, Batch 21] (Some ''validate-1'') None,
      Render_validation_operator_result True \<lparr>success = Some False, details = 3\<rparr>,
      Render_view [Doc 3, Doc 99],
      Create_markdown_artifact ''validation-results run-info''],
     Inl (Raised (Exn ''artifact backend unavailable'')))"
  by (simp add: demo_defs more_defs run_defs)

lemma run_offline_suite:
  "run offline_engine suite_args =
    ([Get_batch (Ctx 7) (Some [(''path'', ''jan.csv'')]) (Suite_name (Some ''warning'')),
      Run_validation_operator (Ctx 7) ''action_list_operator'' [Batch 10] (Some ''validate-1'') None,
      Render_validation_operator_result True \<lparr>success = Some True, details = 1\<rparr>,
      Render_view [Doc 1, Doc 99],
      Create_markdown_artifact ''validation-results run-info''],
     Inl (Raised (Exn ''artifact backend unavailable'')))"
  by (simp add: demo_defs more_defs run_defs)

subsection \<open>Rejection of an ambiguous or empty configuration\<close>

text \<open>
  Claim C1, as amended. When zero or more than one of the three input modes is supplied,
  the call is rejected with the \<^verbatim>\<open>ValueError\<close> before any checkpoint, suite or batch is
  looked up, before the operator runs and before anything is rendered or published. A
  context that was passed in is not touched at all. When no context was passed, the
  validation context is constructed first: that construction is the only external call of
  the run, and an exception it raises propagates in place of the \<^verbatim>\<open>ValueError\<close>.
\<close>

theorem rejected_after_context:
  "supplied_modes a \<noteq> 1 \<Longrightarrow>
   run E a =
     (case context_opt a of
        Some c \<Rightarrow> ([], Inl (ValueError exclusive_message))
      | None \<Rightarrow>
          ([New_DataContext (context_root_dir a) (or_dict (runtime_environment a))],
           case DataContext E (context_root_dir a) (or_dict (runtime_environment a)) of
             Inl x \<Rightarrow> Inl (Raised x)
           | Inr c \<Rightarrow> Inl (ValueError exclusive_message)))"
  by (simp add: run_def load_context_def bind_def ret_def raise_def extern_def
      split: option.splits sum.splits)

theorem rejected_after_context_witness:
  "supplied_modes (default_args\<lparr>context_opt := Some (Ctx 7)\<rparr>) \<noteq> 1 \<and>
   run demo_engine (default_args\<lparr>context_opt := Some (Ctx 7)\<rparr>) =
     ([], Inl (ValueError exclusive_message))"
proof -
  have h: "supplied_modes (default_args\<lparr>context_opt := Some (Ctx 7)\<rparr>) \<noteq> 1"
    by (simp add: supplied_modes_def default_args_def truthy_str_def truthy_dict_def
        truthy_list_def)
  show ?thesis
    using h rejected_after_context [OF h, of demo_engine] by (simp add: default_args_def)
qed

text \<open>
  Claim C1 as it is stated fails: with the defaults of the signature (no mode and no
  context supplied) the run constructs a validation context and only then rejects the call.
\<close>

theorem context_built_before_rejection:
  "supplied_modes default_args \<noteq> 1 \<and>
   run demo_engine default_args =
     ([New_DataContext None []], Inl (ValueError exclusive_message)) \<and>
   fst (run demo_engine default_args) \<noteq> []"
  by (simp add: demo_defs run_defs)

subsection \<open>The run-info toggle\<close>

text \<open>
  Claim C2 does not hold of the code. Called with \<^verbatim>\<open>run_info_at_end=False\<close> and artifact
  rendering enabled, the run builds the renderer with \<^verbatim>\<open>run_info_at_end=True\<close>, and the
  published artifact carries the run-info section.
\<close>

theorem run_info_at_end_overridden:
  "run_info_at_end (suite_args\<lparr>run_info_at_end := False\<rparr>) = False \<and>
   run demo_engine (suite_args\<lparr>run_info_at_end := False\<rparr>) =
    ([Get_batch (Ctx 7) (Some [(''path'', ''jan.csv'')]) (Suite_name (Some ''warning'')),
      Run_validation_operator (Ctx 7) ''action_list_operator'' [Batch 10] (Some ''validate-1'') None,
      Render_validation_operator_result True \<lparr>success = Some True, details = 1\<rparr>,
      Render_view [Doc 1, Doc 99],
      Create_markdown_artifact ''validation-results run-info''],
     Inr \<lparr>success = Some True, details = 1\<rparr>)"
  by (simp add: demo_defs run_defs)

subsection \<open>The loops over a checkpoint\<close>

lemma load_suites_loaded:
  "\<forall>n \<in> set ns. \<exists>b. loaded E c (kw, n) b \<Longrightarrow>
   \<exists>bs. snd (load_suites E c kw ns acc) = Inr (acc @ bs) \<and>
        list_all2 (loaded E c) (map (Pair kw) ns) bs"
proof (induction ns arbitrary: acc)
  case Nil
  then show ?case by (simp add: ret_def)
next
  case (Cons n ns)
  from Cons.prems obtain b where b: "loaded E c (kw, n) b" by auto
  then obtain s where s: "get_expectation_suite E c n = Inr s"
    and gb: "get_batch E c kw (Suite_obj s) = Inr b"
    by (auto simp: loaded_def split: sum.splits)
  from Cons.prems have "\<forall>n \<in> set ns. \<exists>b. loaded E c (kw, n) b" by simp
  from Cons.IH [OF this, of "acc @ [b]"] obtain bs
    where bs: "snd (load_suites E c kw ns (acc @ [b])) = Inr ((acc @ [b]) @ bs)"
      and all: "list_all2 (loaded E c) (map (Pair kw) ns) bs"
    by blast
  have "snd (load_suites E c kw (n # ns) acc) = Inr (acc @ (b # bs))"
    using s gb bs by (simp add: snd_bind snd_extern)
  moreover have "list_all2 (loaded E c) (map (Pair kw) (n # ns)) (b # bs)"
    using b all by simp
  ultimately show ?case by blast
qed

lemma load_batches_loaded:
  "\<forall>d \<in> set ds. \<forall>n \<in> set (decl_expectation_suite_names d).
      \<exists>b. loaded E c (decl_batch_kwargs d, n) b \<Longrightarrow>
   \<exists>bs. snd (load_batches E c ds acc) = Inr (acc @ bs) \<and>
        list_all2 (loaded E c)
          (concat (map (\<lambda>d. map (\<lambda>n. (decl_batch_kwargs d, n)) (decl_expectation_suite_names d))
             ds)) bs"
proof (induction ds arbitrary: acc)
  case Nil
  then show ?case by (simp add: ret_def)
next
  case (Cons d ds)
  from Cons.prems
  have "\<forall>n \<in> set (decl_expectation_suite_names d). \<exists>b. loaded E c (decl_batch_kwargs d, n) b"
    by simp
  from load_suites_loaded [OF this, of acc] obtain bs1
    where bs1: "snd (load_suites E c (decl_batch_kwargs d) (decl_expectation_suite_names d) acc)
                  = Inr (acc @ bs1)"
      and all1: "list_all2 (loaded E c)
                   (map (Pair (decl_batch_kwargs d)) (decl_expectation_suite_names d)) bs1"
    by blast
  from Cons.prems
  have "\<forall>d \<in> set ds. \<forall>n \<in> set (decl_expectation_suite_names d).
          \<exists>b. loaded E c (decl_batch_kwargs d, n) b"
    by simp
  from Cons.IH [OF this, of "acc @ bs1"] obtain bs2
    where bs2: "snd (load_batches E c ds (acc @ bs1)) = Inr ((acc @ bs1) @ bs2)"
      and all2: "list_all2 (loaded E c)
                   (concat (map (\<lambda>d. map (\<lambda>n. (decl_batch_kwargs d, n))
                      (decl_expectation_suite_names d)) ds)) bs2"
    by blast
  have "snd (load_batches E c (d # ds) acc) = Inr (acc @ (bs1 @ bs2))"
    using bs1 bs2 by (simp add: snd_bind)
  moreover have "list_all2 (loaded E c)
      (concat (map (\<lambda>d. map (\<lambda>n. (decl_batch_kwargs d, n)) (decl_expectation_suite_names d))
         (d # ds))) (bs1 @ bs2)"
    using all1 all2 by (simp add: list_all2_appendI)
  ultimately show ?case by blast
qed

subsection \<open>Expansion of a checkpoint\<close>

text \<open>
  Claim C3. When exactly a checkpoint name is supplied, the checkpoint is found and every
  suite and batch it declares can be loaded, the operator is run on one loaded batch per
  declared pairing of batch kwargs and suite name, in the order of the checkpoint's batches
  and of the suite names within each, and under the operator name the checkpoint declares,
  whatever \<^verbatim>\<open>validation_operator\<close> was passed.
\<close>

theorem checkpoint_expanded:
  assumes ctx: "snd (load_context E a) = Inr c"
    and only_checkpoint: "truthy_str (checkpoint_name a)" "\<not> truthy_list (assets_to_validate a)"
      "\<not> (truthy_str (expectation_suite_name a) \<and> truthy_dict (batch_kwargs a))"
    and cp: "get_checkpoint E c (checkpoint_name a) = Inr cp"
    and lookups: "\<forall>p \<in> set (declared_pairs cp). \<exists>b. loaded E c p b"
  shows "\<exists>bs. list_all2 (loaded E c) (declared_pairs cp) bs \<and>
           Run_validation_operator c (cp_validation_operator_name cp) bs
             (run_id E a) (evaluation_parameters a) \<in> set (fst (run E a))"
proof -
  from lookups
  have "\<forall>d \<in> set (cp_batches cp). \<forall>n \<in> set (decl_expectation_suite_names d).
          \<exists>b. loaded E c (decl_batch_kwargs d, n) b"
    by (auto simp: declared_pairs_def)
  from load_batches_loaded [OF this, of "[]"] obtain bs
    where bs: "snd (load_batches E c (cp_batches cp) []) = Inr bs"
      and all: "list_all2 (loaded E c) (declared_pairs cp) bs"
    by (auto simp: declared_pairs_def)
  have assets: "snd (load_assets E a c) = Inr (bs, cp_validation_operator_name cp)"
    using only_checkpoint cp bs
    by (simp add: load_assets_def snd_bind snd_extern ret_def)
  have one: "supplied_modes a = 1"
    using only_checkpoint by (auto simp: supplied_modes_def)
  from run_operator_called [OF ctx one assets] all show ?thesis by blast
qed

theorem checkpoint_expanded_witness:
  "snd (load_context demo_engine checkpoint_args) = Inr (Ctx 7) \<and>
   truthy_str (checkpoint_name checkpoint_args) \<and>
   \<not> truthy_list (assets_to_validate checkpoint_args) \<and>
   \<not> (truthy_str (expectation_suite_name checkpoint_args) \<and>
      truthy_dict (batch_kwargs checkpoint_args)) \<and>
   get_checkpoint demo_engine (Ctx 7) (checkpoint_name checkpoint_args) = Inr demo_checkpoint \<and>
   declared_pairs demo_checkpoint =
     [(Some [(''path'', ''jan.csv'')], ''warning''), (Some [(''path'', ''jan.csv'')], ''failure''),
      (Some [(''path'', ''feb.csv'')], ''warning'')] \<and>
   loaded demo_engine (Ctx 7) (Some [(''path'', ''jan.csv'')], ''warning'') (Batch 11) \<and>
   loaded demo_engine (Ctx 7) (Some [(''path'', ''jan.csv'')], ''failure'') (Batch 12) \<and>
   loaded demo_engine (Ctx 7) (Some [(''path'', ''feb.csv'')], ''warning'') (Batch 21) \<and>
   validation_operator checkpoint_args = ''action_list_operator'' \<and>
   (\<exists>bs. list_all2 (loaded demo_engine (Ctx 7)) (declared_pairs demo_checkpoint) bs \<and>
      Run_validation_operator (Ctx 7) ''checkpoint_operator'' bs
        (run_id demo_engine checkpoint_args) (evaluation_parameters checkpoint_args)
        \<in> set (fst (run demo_engine checkpoint_args)))"
proof -
  have h1: "snd (load_context demo_engine checkpoint_args) = Inr (Ctx 7)"
    by (simp add: load_context_def checkpoint_args_def default_args_def ret_def)
  have h2: "truthy_str (checkpoint_name checkpoint_args)"
    by (simp add: truthy_str_def checkpoint_args_def default_args_def)
  have h3: "\<not> truthy_list (assets_to_validate checkpoint_args)"
    by (simp add: truthy_list_def checkpoint_args_def default_args_def)
  have h4: "\<not> (truthy_str (expectation_suite_name checkpoint_args) \<and>
      truthy_dict (batch_kwargs checkpoint_args))"
    by (simp add: truthy_str_def checkpoint_args_def default_args_def)
  have h5: "get_checkpoint demo_engine (Ctx 7) (checkpoint_name checkpoint_args)
              = Inr demo_checkpoint"
    by (simp add: demo_engine_def checkpoint_args_def default_args_def)
  have pairs: "declared_pairs demo_checkpoint =
     [(Some [(''path'', ''jan.csv'')], ''warning''), (Some [(''path'', ''jan.csv'')], ''failure''),
      (Some [(''path'', ''feb.csv'')], ''warning'')]"
    by (simp add: declared_pairs_def demo_checkpoint_def)
  have b11: "loaded demo_engine (Ctx 7) (Some [(''path'', ''jan.csv'')], ''warning'') (Batch 11)"
    and b12: "loaded demo_engine (Ctx 7) (Some [(''path'', ''jan.csv'')], ''failure'') (Batch 12)"
    and b21: "loaded demo_engine (Ctx 7) (Some [(''path'', ''feb.csv'')], ''warning'') (Batch 21)"
    by (simp_all add: loaded_def demo_engine_def)
  have h6: "\<forall>p \<in> set (declared_pairs demo_checkpoint). \<exists>b. loaded demo_engine (Ctx 7) p b"
    unfolding pairs using b11 b12 b21 by auto
  have h7: "validation_operator checkpoint_args = ''action_list_operator''"
    by (simp add: checkpoint_args_def default_args_def)
  have name: "cp_validation_operator_name demo_checkpoint = ''checkpoint_operator''"
    by (simp add: demo_checkpoint_def)
  from checkpoint_expanded [OF h1 h2 h3 h4 h5 h6] h1 h2 h3 h4 h5 pairs b11 b12 b21 h7
  show ?thesis
    unfolding name by blast
qed

subsection \<open>Failure and success of the validation\<close>

text \<open>
  Claim C4, as amended. When the operator's result in this run has \<^verbatim>\<open>success\<close> equal to
  \<^verbatim>\<open>False\<close>, the run raises \<^verbatim>\<open>signals.FAIL\<close> whose payload is that result, provided the
  artifact is disabled or rendering and publishing raise nothing; an exception raised by
  the renderer, by the view or by the publishing call is raised in place of the failure
  signal.
\<close>

theorem failure_raises_FAIL:
  assumes "Run_validation_operator c operator bs rid ep \<in> set (fst (run E a))"
    and "run_validation_operator E c operator bs rid ep = Inr r"
    and "success r = Some False"
  shows "snd (run E a) =
     (if disable_markdown_artifact a then Inl (FAIL r)
      else case render_validation_operator_result E True r of
             Inl x \<Rightarrow> Inl (Raised x)
           | Inr ds \<Rightarrow>
               (case render_view E ds of
                  Inl x \<Rightarrow> Inl (Raised x)
                | Inr parts \<Rightarrow>
                    (case create_markdown_artifact E (join_space parts) of
                       Inl x \<Rightarrow> Inl (Raised x)
                     | Inr u \<Rightarrow> Inl (FAIL r))))"
proof -
  from run_after_operator [OF assms(1,2)] assms(3)
  have "snd (run E a) =
      (case snd (generate_artifact E a r) of Inl e \<Rightarrow> Inl e | Inr u \<Rightarrow> Inl (FAIL r))"
    by auto
  then show ?thesis
    by (simp add: generate_artifact_outcome split: sum.splits)
qed

theorem failure_raises_FAIL_witness:
  "Run_validation_operator (Ctx 7) ''checkpoint_operator'' [Batch 11, Batch 12, Batch 21]
     (Some ''validate-1'') None \<in> set (fst (run demo_engine checkpoint_args)) \<and>
   run_validation_operator demo_engine (Ctx 7) ''checkpoint_operator''
     [Batch 11, Batch 12, Batch 21] (Some ''validate-1'') None
     = Inr \<lparr>success = Some False, details = 3\<rparr> \<and>
   success \<lparr>success = Some False, details = 3\<rparr> = Some False \<and>
   snd (run demo_engine checkpoint_args) = Inl (FAIL \<lparr>success = Some False, details = 3\<rparr>) \<and>
   Run_validation_operator (Ctx 7) ''checkpoint_operator'' [Batch 11, Batch 12, Batch 21]
     (Some ''validate-1'') None \<in> set (fst (run offline_engine checkpoint_args)) \<and>
   run_validation_operator offline_engine (Ctx 7) ''checkpoint_operator''
     [Batch 11, Batch 12, Batch 21] (Some ''validate-1'') None
     = Inr \<lparr>success = Some False, details = 3\<rparr> \<and>
   snd (run offline_engine checkpoint_args)
     = Inl (Raised (Exn ''artifact backend unavailable''))"
proof -
  have h1: "Run_validation_operator (Ctx 7) ''checkpoint_operator'' [Batch 11, Batch 12, Batch 21]
     (Some ''validate-1'') None \<in> set (fst (run demo_engine checkpoint_args))"
    by (simp add: run_checkpoint)
  have h2: "run_validation_operator demo_engine (Ctx 7) ''checkpoint_operator''
     [Batch 11, Batch 12, Batch 21] (Some ''validate-1'') None
     = Inr \<lparr>success = Some False, details = 3\<rparr>"
    by (simp add: demo_engine_def)
  have h3: "success \<lparr>success = Some False, details = 3\<rparr> = Some False"
    by simp
  have g1: "Run_validation_operator (Ctx 7) ''checkpoint_operator'' [Batch 11, Batch 12, Batch 21]
     (Some ''validate-1'') None \<in> set (fst (run offline_engine checkpoint_args))"
    by (simp add: run_offline_checkpoint)
  have g2: "run_validation_operator offline_engine (Ctx 7) ''checkpoint_operator''
     [Batch 11, Batch 12, Batch 21] (Some ''validate-1'') None
     = Inr \<lparr>success = Some False, details = 3\<rparr>"
    by (simp add: offline_engine_def demo_engine_def)
  have enabled: "\<not> disable_markdown_artifact checkpoint_args"
    by (simp add: checkpoint_args_def default_args_def)
  have demo: "snd (run demo_engine checkpoint_args) = Inl (FAIL \<lparr>success = Some False, details = 3\<rparr>)"
    using failure_raises_FAIL [OF h1 h2 h3] enabled by (simp add: demo_engine_def)
  have offline: "snd (run offline_engine checkpoint_args)
      = Inl (Raised (Exn ''artifact backend unavailable''))"
    using failure_raises_FAIL [OF g1 g2 h3] enabled
    by (simp add: offline_engine_def demo_engine_def)
  from h1 h2 h3 g1 g2 demo offline show ?thesis by blast
qed

text \<open>
  Claim C4 as it is stated fails: the operator reports a failure, the store of artifacts
  refuses the artifact, and the run ends in the exception of the store, not in
  \<^verbatim>\<open>signals.FAIL\<close>.
\<close>

theorem failure_hidden_by_publisher:
  "Run_validation_operator (Ctx 7) ''checkpoint_operator'' [Batch 11, Batch 12, Batch 21]
     (Some ''validate-1'') None \<in> set (fst (run offline_engine checkpoint_args)) \<and>
   run_validation_operator offline_engine (Ctx 7) ''checkpoint_operator''
     [Batch 11, Batch 12, Batch 21] (Some ''validate-1'') None
     = Inr \<lparr>success = Some False, details = 3\<rparr> \<and>
   success \<lparr>success = Some False, details = 3\<rparr> = Some False \<and>
   snd (run offline_engine checkpoint_args)
     = Inl (Raised (Exn ''artifact backend unavailable'')) \<and>
   snd (run offline_engine checkpoint_args)
     \<noteq> Inl (FAIL \<lparr>success = Some False, details = 3\<rparr>)"
  by (simp add: run_offline_checkpoint) (simp add: offline_engine_def demo_engine_def)

text \<open>
  Claim C5, as amended. When the operator's result in this run indicates success, the run
  returns that result unchanged, provided the artifact is disabled or rendering and
  publishing raise nothing; an exception raised by the renderer, by the view or by the
  publishing call is raised and nothing is returned.
\<close>

theorem success_returns_result:
  assumes "Run_validation_operator c operator bs rid ep \<in> set (fst (run E a))"
    and "run_validation_operator E c operator bs rid ep = Inr r"
    and "success r = Some True"
  shows "snd (run E a) =
     (if disable_markdown_artifact a then Inr r
      else case render_validation_operator_result E True r of
             Inl x \<Rightarrow> Inl (Raised x)
           | Inr ds \<Rightarrow>
               (case render_view E ds of
                  Inl x \<Rightarrow> Inl (Raised x)
                | Inr parts \<Rightarrow>
                    (case create_markdown_artifact E (join_space parts) of
                       Inl x \<Rightarrow> Inl (Raised x)
                     | Inr u \<Rightarrow> Inr r)))"
proof -
  from run_after_operator [OF assms(1,2)] assms(3)
  have "snd (run E a) =
      (case snd (generate_artifact E a r) of Inl e \<Rightarrow> Inl e | Inr u \<Rightarrow> Inr r)"
    by auto
  then show ?thesis
    by (simp add: generate_artifact_outcome split: sum.splits)
qed

theorem success_returns_result_witness:
  "Run_validation_operator (Ctx 7) ''action_list_operator'' [Batch 10]
     (Some ''validate-1'') None \<in> set (fst (run demo_engine suite_args)) \<and>
   run_validation_operator demo_engine (Ctx 7) ''action_list_operator''
     [Batch 10] (Some ''validate-1'') None = Inr \<lparr>success = Some True, details = 1\<rparr> \<and>
   success \<lparr>success = Some True, details = 1\<rparr> = Some True \<and>
   snd (run demo_engine suite_args) = Inr \<lparr>success = Some True, details = 1\<rparr> \<and>
   Run_validation_operator (Ctx 7) ''action_list_operator'' [Batch 10]
     (Some ''validate-1'') None \<in> set (fst (run offline_engine suite_args)) \<and>
   run_validation_operator offline_engine (Ctx 7) ''action_list_operator''
     [Batch 10] (Some ''validate-1'') None = Inr \<lparr>success = Some True, details = 1\<rparr> \<and>
   snd (run offline_engine suite_args) = Inl (Raised (Exn ''artifact backend unavailable''))"
proof -
  have h1: "Run_validation_operator (Ctx 7) ''action_list_operator'' [Batch 10]
     (Some ''validate-1'') None \<in> set (fst (run demo_engine suite_args))"
    by (simp add: run_suite)
  have h2: "run_validation_operator demo_engine (Ctx 7) ''action_list_operator''
     [Batch 10] (Some ''validate-1'') None = Inr \<lparr>success = Some True, details = 1\<rparr>"
    by (simp add: demo_engine_def)
  have h3: "success \<lparr>success = Some True, details = 1\<rparr> = Some True"
    by simp
  have g1: "Run_validation_operator (Ctx 7) ''action_list_operator'' [Batch 10]
     (Some ''validate-1'') None \<in> set (fst (run offline_engine suite_args))"
    by (simp add: run_offline_suite)
  have g2: "run_validation_operator offline_engine (Ctx 7) ''action_list_operator''
     [Batch 10] (Some ''validate-1'') None = Inr \<lparr>success = Some True, details = 1\<rparr>"
    by (simp add: offline_engine_def demo_engine_def)
  have enabled: "\<not> disable_markdown_artifact suite_args"
    by (simp add: suite_args_def default_args_def)
  have demo: "snd (run demo_engine suite_args) = Inr \<lparr>success = Some True, details = 1\<rparr>"
    using success_returns_result [OF h1 h2 h3] enabled by (simp add: demo_engine_def)
  have offline: "snd (run offline_engine suite_args)
      = Inl (Raised (Exn ''artifact backend unavailable''))"
    using success_returns_result [OF g1 g2 h3] enabled
    by (simp add: offline_engine_def demo_engine_def)
  from h1 h2 h3 g1 g2 demo offline show ?thesis by blast
qed

text \<open>
  Claim C5 as it is stated fails: the operator reports a success, the store of artifacts
  refuses the artifact, and the run raises the exception of the store instead of returning
  the result.
\<close>

theorem success_hidden_by_publisher:
  "Run_validation_operator (Ctx 7) ''action_list_operator'' [Batch 10]
     (Some ''validate-1'') None \<in> set (fst (run offline_engine suite_args)) \<and>
   run_validation_operator offline_engine (Ctx 7) ''action_list_operator''
     [Batch 10] (Some ''validate-1'') None = Inr \<lparr>success = Some True, details = 1\<rparr> \<and>
   success \<lparr>success = Some True, details = 1\<rparr> = Some True \<and>
   snd (run offline_engine suite_args) = Inl (Raised (Exn ''artifact backend unavailable'')) \<and>
   snd (run offline_engine suite_args) \<noteq> Inr \<lparr>success = Some True, details = 1\<rparr>"
  by (simp add: run_offline_suite) (simp add: offline_engine_def demo_engine_def)

subsection \<open>A run without artifact\<close>

lemma run_disabled_no_render:
  assumes "disable_markdown_artifact a"
  shows "trace_all (\<lambda>k. \<not> is_render k) (run E a)"
  unfolding run_def
proof (rule trace_all_bind)
  have lookups: "trace_all (\<lambda>k. \<not> is_render k) m" if "trace_all is_lookup m"
    for m :: "'x io"
    using that by (rule trace_all_mono) (rule is_lookup_not_render)
  show "trace_all (\<lambda>k. \<not> is_render k) (load_context E a)"
    by (rule lookups) (rule load_context_lookup)
  fix c
  have tail: "trace_all (\<lambda>k. \<not> is_render k)
      (bind (generate_artifact E a r)
         (\<lambda>_. if success r = Some False then raise (FAIL r) else ret r))" for r
    by (simp add: generate_artifact_disabled [OF assms] bind_ret trace_all_raise trace_all_ret)
  have "trace_all (\<lambda>k. \<not> is_render k)
      (bind (load_assets E a c)
         (\<lambda>(assets, operator).
            bind (extern
                    (Run_validation_operator c operator assets (run_id E a)
                       (evaluation_parameters a))
                    (run_validation_operator E c operator assets (run_id E a)
                       (evaluation_parameters a)))
              (\<lambda>res.
                 bind (generate_artifact E a res)
                   (\<lambda>_. if success res = Some False then raise (FAIL res) else ret res))))"
    by (rule trace_all_bind, rule lookups, rule load_assets_lookup)
      (auto intro!: trace_all_bind trace_all_extern tail)
  then show "trace_all (\<lambda>k. \<not> is_render k)
      (if supplied_modes a \<noteq> 1 then raise (ValueError exclusive_message)
       else bind (load_assets E a c)
         (\<lambda>(assets, operator).
            bind (extern
                    (Run_validation_operator c operator assets (run_id E a)
                       (evaluation_parameters a))
                    (run_validation_operator E c operator assets (run_id E a)
                       (evaluation_parameters a)))
              (\<lambda>res.
                 bind (generate_artifact E a res)
                   (\<lambda>_. if success res = Some False then raise (FAIL res) else ret res))))"
    by (simp add: trace_all_raise)
qed

subsection \<open>The markdown artifact\<close>

text \<open>
  Claim C6. With \<^verbatim>\<open>disable_markdown_artifact\<close> set, no run calls
  \<^verbatim>\<open>create_markdown_artifact\<close>, whatever the engine answers.
\<close>

theorem disabled_never_publishes:
  "disable_markdown_artifact a \<Longrightarrow> Create_markdown_artifact md \<notin> set (fst (run E a))"
  using run_disabled_no_render [of a E] by (auto simp: trace_all_def)

theorem disabled_never_publishes_witness:
  "disable_markdown_artifact (checkpoint_args\<lparr>disable_markdown_artifact := True\<rparr>) \<and>
   Create_markdown_artifact ''validation-results run-info''
     \<notin> set (fst (run demo_engine (checkpoint_args\<lparr>disable_markdown_artifact := True\<rparr>)))"
proof -
  have h: "disable_markdown_artifact (checkpoint_args\<lparr>disable_markdown_artifact := True\<rparr>)"
    by simp
  from disabled_never_publishes [OF h] h show ?thesis by blast
qed

subsection \<open>The run identifier\<close>

text \<open>
  Claim C7. The run identifier handed to the operator is \<^verbatim>\<open>run_name\<close> when one is given
  (a non-empty string), and the task slug of the workflow context otherwise.
\<close>

theorem run_id_from_run_name_or_task_slug:
  "Run_validation_operator c operator bs rid ep \<in> set (fst (run E a)) \<Longrightarrow>
   rid = (case run_name a of
            None \<Rightarrow> task_slug E
          | Some n \<Rightarrow> if n = [] then task_slug E else Some n)"
  by (drule operator_call_in_run) (simp add: run_id_def truthy_str_def split: option.splits)

theorem run_id_from_run_name_or_task_slug_witness:
  "Run_validation_operator (Ctx 7) ''action_list_operator'' [Batch 10]
     (Some ''validate-1'') None \<in> set (fst (run demo_engine suite_args)) \<and>
   Some ''validate-1'' =
     (case run_name suite_args of
        None \<Rightarrow> task_slug demo_engine
      | Some n \<Rightarrow> if n = [] then task_slug demo_engine else Some n)"
proof -
  have h: "Run_validation_operator (Ctx 7) ''action_list_operator'' [Batch 10]
     (Some ''validate-1'') None \<in> set (fst (run demo_engine suite_args))"
    by (simp add: run_suite)
  from run_id_from_run_name_or_task_slug [OF h] h show ?thesis by blast
qed

subsection \<open>Propagation, step by step\<close>

lemma propagates_ret: "propagates E (ret x)"
  by (simp add: propagates_def ret_def)

lemma propagates_raise: "\<forall>x. e \<noteq> Raised x \<Longrightarrow> propagates E (raise e)"
  by (simp add: propagates_def raise_def)

lemma propagates_extern: "raises E k = failure r \<Longrightarrow> propagates E (extern k r)"
  by (cases r) (simp_all add: propagates_def extern_def)

lemma propagates_bind:
  assumes m: "propagates E m" and f: "\<And>x. propagates E (f x)"
  shows "propagates E (bind m f)"
proof (cases "snd m")
  case (Inl e)
  then have fst_eq: "fst (bind m f) = fst m" and snd_eq: "snd (bind m f) = Inl e"
    by (simp_all add: fst_bind snd_bind)
  have calls: "\<forall>k \<in> set (fst m). \<forall>x. raises E k = Some x \<longrightarrow> e = Raised x"
    and origin: "\<forall>x. e = Raised x \<longrightarrow> (\<exists>k \<in> set (fst m). raises E k = Some x)"
    using m Inl unfolding propagates_def by simp_all
  show ?thesis
    unfolding propagates_def fst_eq snd_eq using calls origin by simp
next
  case (Inr v)
  from m Inr have quiet: "\<forall>k \<in> set (fst m). raises E k = None"
    unfolding propagates_def by (metis option.exhaust sum.distinct(1))
  have fst_eq: "fst (bind m f) = fst m @ fst (f v)" and snd_eq: "snd (bind m f) = snd (f v)"
    using Inr by (simp_all add: fst_bind snd_bind)
  have calls: "\<forall>k \<in> set (fst (f v)). \<forall>x. raises E k = Some x \<longrightarrow> snd (f v) = Inl (Raised x)"
    and origin: "\<forall>x. snd (f v) = Inl (Raised x) \<longrightarrow> (\<exists>k \<in> set (fst (f v)). raises E k = Some x)"
    using f [of v] unfolding propagates_def by blast+
  show ?thesis
    unfolding propagates_def fst_eq snd_eq
  proof (intro conjI ballI allI impI)
    fix k x
    assume "k \<in> set (fst m @ fst (f v))" and r: "raises E k = Some x"
    then have "k \<in> set (fst m) \<or> k \<in> set (fst (f v))" by simp
    with quiet r have "k \<in> set (fst (f v))" by auto
    with calls r show "snd (f v) = Inl (Raised x)" by blast
  next
    fix x
    assume "snd (f v) = Inl (Raised x)"
    with origin obtain k where "k \<in> set (fst (f v))" "raises E k = Some x" by blast
    then show "\<exists>k \<in> set (fst m @ fst (f v)). raises E k = Some x" by auto
  qed
qed

lemma propagates_if:
  "propagates E x \<Longrightarrow> propagates E y \<Longrightarrow> propagates E (if c then x else y)"
  by simp

lemma propagates_case_prod:
  "(\<And>a b. propagates E (f a b)) \<Longrightarrow> propagates E (case p of (a, b) \<Rightarrow> f a b)"
  by (cases p) simp

lemma load_context_propagates: "propagates E (load_context E a)"
  by (simp add: load_context_def propagates_ret propagates_extern split: option.splits)

lemma load_suites_propagates: "propagates E (load_suites E c kw ns acc)"
proof (induction ns arbitrary: acc)
  case Nil
  show ?case by (simp add: propagates_ret)
next
  case (Cons n ns)
  show ?case
    unfolding load_suites.simps
    by (intro propagates_bind propagates_extern Cons.IH) simp_all
qed

lemma load_batches_propagates: "propagates E (load_batches E c ds acc)"
proof (induction ds arbitrary: acc)
  case Nil
  show ?case by (simp add: propagates_ret)
next
  case (Cons d ds)
  show ?case
    unfolding load_batches.simps
    by (intro propagates_bind load_suites_propagates Cons.IH)
qed

lemma load_assets_propagates: "propagates E (load_assets E a c)"
  unfolding load_assets_def
  by (intro propagates_if propagates_bind propagates_extern propagates_ret
      load_batches_propagates) simp_all

lemma generate_artifact_propagates: "propagates E (generate_artifact E a r)"
  unfolding generate_artifact_def Let_def
  by (intro propagates_if propagates_bind propagates_extern propagates_ret) simp_all

lemma run_propagates: "propagates E (run E a)"
  unfolding run_def
  by (intro propagates_if propagates_case_prod propagates_bind propagates_extern
      propagates_ret propagates_raise load_context_propagates load_assets_propagates
      generate_artifact_propagates) simp_all

subsection \<open>Exceptions of external calls\<close>

text \<open>
  Claim C8. An exception raised by any external call made during the run (context
  construction, checkpoint, suite or batch lookup, operator, rendering, publishing) is the
  outcome of the run, unchanged; and the run raises no exception of that kind that an
  external call did not raise.
\<close>

theorem external_failures_propagate:
  "(k \<in> set (fst (run E a)) \<and> raises E k = Some x \<longrightarrow> snd (run E a) = Inl (Raised x)) \<and>
   (snd (run E a) = Inl (Raised x) \<longrightarrow> (\<exists>k \<in> set (fst (run E a)). raises E k = Some x))"
  using run_propagates [of E a] unfolding propagates_def by blast

theorem external_failures_propagate_witness:
  "Get_checkpoint (Ctx 7) (Some ''weekly'')
     \<in> set (fst (run demo_engine (checkpoint_args\<lparr>checkpoint_name := Some ''weekly''\<rparr>))) \<and>
   raises demo_engine (Get_checkpoint (Ctx 7) (Some ''weekly''))
     = Some (Exn ''checkpoint not found'') \<and>
   snd (run demo_engine (checkpoint_args\<lparr>checkpoint_name := Some ''weekly''\<rparr>))
     = Inl (Raised (Exn ''checkpoint not found''))"
proof -
  have h1: "Get_checkpoint (Ctx 7) (Some ''weekly'')
     \<in> set (fst (run demo_engine (checkpoint_args\<lparr>checkpoint_name := Some ''weekly''\<rparr>)))"
    by (simp add: demo_defs run_defs)
  have h2: "raises demo_engine (Get_checkpoint (Ctx 7) (Some ''weekly''))
     = Some (Exn ''checkpoint not found'')"
    by (simp add: demo_engine_def)
  from external_failures_propagate
    [where k = "Get_checkpoint (Ctx 7) (Some ''weekly'')" and E = demo_engine
      and a = "checkpoint_args\<lparr>checkpoint_name := Some ''weekly''\<rparr>"
      and x = "Exn ''checkpoint not found''"]
    h1 h2
  show ?thesis by blast
qed

text \<open>
  Claim C10. With artifact rendering enabled, whatever the operator's result says: once the
  result is rendered, the trace of the run ends with the operator call, the two rendering
  calls and the publishing call, in this order, and only then is the result checked (an
  exception of the publishing call wins over both the failure signal and the return). And
  a run that ends in \<^verbatim>\<open>signals.FAIL\<close> or returns the result has published the artifact.
\<close>

theorem artifact_published_before_check:
  assumes "\<not> disable_markdown_artifact a"
    and "Run_validation_operator c operator bs rid ep \<in> set (fst (run E a))"
    and "run_validation_operator E c operator bs rid ep = Inr r"
  shows "(render_validation_operator_result E True r = Inr ds \<and> render_view E ds = Inr parts \<longrightarrow>
            (\<exists>pre. fst (run E a) =
               pre @ [Run_validation_operator c operator bs rid ep,
                      Render_validation_operator_result True r,
                      Render_view ds,
                      Create_markdown_artifact (join_space parts)]) \<and>
            snd (run E a) =
              (case create_markdown_artifact E (join_space parts) of
                 Inl x \<Rightarrow> Inl (Raised x)
               | Inr u \<Rightarrow> if success r = Some False then Inl (FAIL r) else Inr r)) \<and>
         (snd (run E a) = Inl (FAIL r) \<or> snd (run E a) = Inr r \<longrightarrow>
            (\<exists>pre ds' parts'. fst (run E a) =
               pre @ [Run_validation_operator c operator bs rid ep,
                      Render_validation_operator_result True r,
                      Render_view ds',
                      Create_markdown_artifact (join_space parts')]))"
proof -
  from run_after_operator [OF assms(2,3)] obtain pre where run:
    "run E a =
     (pre @ [Run_validation_operator c operator bs rid ep] @ fst (generate_artifact E a r),
      case snd (generate_artifact E a r) of
        Inl e \<Rightarrow> Inl e
      | Inr u \<Rightarrow> if success r = Some False then Inl (FAIL r) else Inr r)"
    by blast
  have rendered: "generate_artifact E a r =
      ([Render_validation_operator_result True r, Render_view ds,
        Create_markdown_artifact (join_space parts)],
       case create_markdown_artifact E (join_space parts) of
         Inl x \<Rightarrow> Inl (Raised x)
       | Inr u \<Rightarrow> Inr u)"
    if "render_validation_operator_result E True r = Inr ds" "render_view E ds = Inr parts"
    for ds parts
    using assms(1) that
    by (simp add: generate_artifact_def prod_eq_iff fst_bind snd_bind fst_extern snd_extern)
  have checked: "\<exists>ds parts. render_validation_operator_result E True r = Inr ds \<and>
      render_view E ds = Inr parts \<and> create_markdown_artifact E (join_space parts) = Inr ()"
    if "snd (run E a) = Inl (FAIL r) \<or> snd (run E a) = Inr r"
    using that assms(1) unfolding run
    by (auto simp: generate_artifact_outcome split: sum.splits if_splits)
  show ?thesis
  proof (intro conjI impI)
    assume "render_validation_operator_result E True r = Inr ds \<and> render_view E ds = Inr parts"
    then have "generate_artifact E a r =
      ([Render_validation_operator_result True r, Render_view ds,
        Create_markdown_artifact (join_space parts)],
       case create_markdown_artifact E (join_space parts) of
         Inl x \<Rightarrow> Inl (Raised x)
       | Inr u \<Rightarrow> Inr u)"
      using rendered by blast
    with run show "\<exists>pre. fst (run E a) =
               pre @ [Run_validation_operator c operator bs rid ep,
                      Render_validation_operator_result True r,
                      Render_view ds,
                      Create_markdown_artifact (join_space parts)]"
      and "snd (run E a) =
              (case create_markdown_artifact E (join_space parts) of
                 Inl x \<Rightarrow> Inl (Raised x)
               | Inr u \<Rightarrow> if success r = Some False then Inl (FAIL r) else Inr r)"
      by (simp_all split: sum.splits)
  next
    assume "snd (run E a) = Inl (FAIL r) \<or> snd (run E a) = Inr r"
    from checked [OF this] obtain ds' parts' where
      "render_validation_operator_result E True r = Inr ds'" "render_view E ds' = Inr parts'"
      by blast
    from rendered [OF this] run
    show "\<exists>pre ds' parts'. fst (run E a) =
               pre @ [Run_validation_operator c operator bs rid ep,
                      Render_validation_operator_result True r,
                      Render_view ds',
                      Create_markdown_artifact (join_space parts')]"
      by auto
  qed
qed

theorem artifact_published_before_check_witness:
  "\<not> disable_markdown_artifact checkpoint_args \<and>
   Run_validation_operator (Ctx 7) ''checkpoint_operator'' [Batch 11, Batch 12, Batch 21]
     (Some ''validate-1'') None \<in> set (fst (run demo_engine checkpoint_args)) \<and>
   run_validation_operator demo_engine (Ctx 7) ''checkpoint_operator''
     [Batch 11, Batch 12, Batch 21] (Some ''validate-1'') None
     = Inr \<lparr>success = Some False, details = 3\<rparr> \<and>
   render_validation_operator_result demo_engine True \<lparr>success = Some False, details = 3\<rparr>
     = Inr [Doc 3, Doc 99] \<and>
   render_view demo_engine [Doc 3, Doc 99] = Inr [''validation-results'', ''run-info''] \<and>
   (\<exists>pre. fst (run demo_engine checkpoint_args) =
      pre @ [Run_validation_operator (Ctx 7) ''checkpoint_operator''
               [Batch 11, Batch 12, Batch 21] (Some ''validate-1'') None,
             Render_validation_operator_result True \<lparr>success = Some False, details = 3\<rparr>,
             Render_view [Doc 3, Doc 99],
             Create_markdown_artifact ''validation-results run-info'']) \<and>
   snd (run demo_engine checkpoint_args) = Inl (FAIL \<lparr>success = Some False, details = 3\<rparr>) \<and>
   \<not> disable_markdown_artifact suite_args \<and>
   Run_validation_operator (Ctx 7) ''action_list_operator'' [Batch 10]
     (Some ''validate-1'') None \<in> set (fst (run demo_engine suite_args)) \<and>
   run_validation_operator demo_engine (Ctx 7) ''action_list_operator''
     [Batch 10] (Some ''validate-1'') None = Inr \<lparr>success = Some True, details = 1\<rparr> \<and>
   render_validation_operator_result demo_engine True \<lparr>success = Some True, details = 1\<rparr>
     = Inr [Doc 1, Doc 99] \<and>
   (\<exists>pre. fst (run demo_engine suite_args) =
      pre @ [Run_validation_operator (Ctx 7) ''action_list_operator'' [Batch 10]
               (Some ''validate-1'') None,
             Render_validation_operator_result True \<lparr>success = Some True, details = 1\<rparr>,
             Render_view [Doc 1, Doc 99],
             Create_markdown_artifact ''validation-results run-info'']) \<and>
   snd (run demo_engine suite_args) = Inr \<lparr>success = Some True, details = 1\<rparr>"
proof -
  have h1: "\<not> disable_markdown_artifact checkpoint_args"
    by (simp add: checkpoint_args_def default_args_def)
  have h2: "Run_validation_operator (Ctx 7) ''checkpoint_operator''
     [Batch 11, Batch 12, Batch 21] (Some ''validate-1'') None
       \<in> set (fst (run demo_engine checkpoint_args))"
    by (simp add: run_checkpoint)
  have h3: "run_validation_operator demo_engine (Ctx 7) ''checkpoint_operator''
     [Batch 11, Batch 12, Batch 21] (Some ''validate-1'') None
     = Inr \<lparr>success = Some False, details = 3\<rparr>"
    by (simp add: demo_engine_def)
  have h4: "render_validation_operator_result demo_engine True
      \<lparr>success = Some False, details = 3\<rparr> = Inr [Doc 3, Doc 99]"
    by (simp add: demo_engine_def)
  have h5: "render_view demo_engine [Doc 3, Doc 99] = Inr [''validation-results'', ''run-info'']"
    by (simp add: demo_engine_def)
  have g1: "\<not> disable_markdown_artifact suite_args"
    by (simp add: suite_args_def default_args_def)
  have g2: "Run_validation_operator (Ctx 7) ''action_list_operator'' [Batch 10]
     (Some ''validate-1'') None \<in> set (fst (run demo_engine suite_args))"
    by (simp add: run_suite)
  have g3: "run_validation_operator demo_engine (Ctx 7) ''action_list_operator''
     [Batch 10] (Some ''validate-1'') None = Inr \<lparr>success = Some True, details = 1\<rparr>"
    by (simp add: demo_engine_def)
  have g4: "render_validation_operator_result demo_engine True
      \<lparr>success = Some True, details = 1\<rparr> = Inr [Doc 1, Doc 99]"
    by (simp add: demo_engine_def)
  have g5: "render_view demo_engine [Doc 1, Doc 99] = Inr [''validation-results'', ''run-info'']"
    by (simp add: demo_engine_def)
  have joined: "join_space [''validation-results'', ''run-info''] = ''validation-results run-info''"
    by simp
  have publish: "create_markdown_artifact demo_engine ''validation-results run-info'' = Inr ()"
    by (simp add: demo_engine_def)
  have failing: "(\<exists>pre. fst (run demo_engine checkpoint_args) =
      pre @ [Run_validation_operator (Ctx 7) ''checkpoint_operator''
               [Batch 11, Batch 12, Batch 21] (Some ''validate-1'') None,
             Render_validation_operator_result True \<lparr>success = Some False, details = 3\<rparr>,
             Render_view [Doc 3, Doc 99],
             Create_markdown_artifact ''validation-results run-info'']) \<and>
   snd (run demo_engine checkpoint_args) = Inl (FAIL \<lparr>success = Some False, details = 3\<rparr>)"
    using artifact_published_before_check [OF h1 h2 h3, of "[Doc 3, Doc 99]"
        "[''validation-results'', ''run-info'']"] h4 h5
    unfolding joined publish by simp
  have passing: "(\<exists>pre. fst (run demo_engine suite_args) =
      pre @ [Run_validation_operator (Ctx 7) ''action_list_operator'' [Batch 10]
               (Some ''validate-1'') None,
             Render_validation_operator_result True \<lparr>success = Some True, details = 1\<rparr>,
             Render_view [Doc 1, Doc 99],
             Create_markdown_artifact ''validation-results run-info'']) \<and>
   snd (run demo_engine suite_args) = Inr \<lparr>success = Some True, details = 1\<rparr>"
    using artifact_published_before_check [OF g1 g2 g3, of "[Doc 1, Doc 99]"
        "[''validation-results'', ''run-info'']"] g4 g5
    unfolding joined publish by simp
  from h1 h2 h3 h4 h5 g1 g2 g3 g4 failing passing show ?thesis by blast
qed

subsection \<open>The errors of a run, step by step\<close>

lemma fails_only_ret: "fails_only P (ret x)"
  by (simp add: fails_only_def ret_def)

lemma fails_only_raise: "P e \<Longrightarrow> fails_only P (raise e)"
  by (simp add: fails_only_def raise_def)

lemma fails_only_extern: "(\<And>x. P (Raised x)) \<Longrightarrow> fails_only P (extern k r)"
  by (cases r) (simp_all add: fails_only_def extern_def)

lemma fails_only_bind:
  "fails_only P m \<Longrightarrow> (\<And>x. fails_only P (f x)) \<Longrightarrow> fails_only P (bind m f)"
  unfolding fails_only_def snd_bind by (cases "snd m") simp_all

lemma fails_only_if:
  "fails_only P x \<Longrightarrow> fails_only P y \<Longrightarrow> fails_only P (if c then x else y)"
  by simp

lemma fails_only_case_prod:
  "(\<And>a b. fails_only P (f a b)) \<Longrightarrow> fails_only P (case p of (a, b) \<Rightarrow> f a b)"
  by (cases p) simp

lemma load_context_fails_only: "(\<And>x. P (Raised x)) \<Longrightarrow> fails_only P (load_context E a)"
  by (simp add: load_context_def fails_only_ret fails_only_extern split: option.splits)

lemma load_suites_fails_only:
  assumes "\<And>x. P (Raised x)"
  shows "fails_only P (load_suites E c kw ns acc)"
proof (induction ns arbitrary: acc)
  case Nil
  show ?case by (simp add: fails_only_ret)
next
  case (Cons n ns)
  show ?case
    unfolding load_suites.simps
    by (intro fails_only_bind fails_only_extern Cons.IH assms)
qed

lemma load_batches_fails_only:
  assumes "\<And>x. P (Raised x)"
  shows "fails_only P (load_batches E c ds acc)"
proof (induction ds arbitrary: acc)
  case Nil
  show ?case by (simp add: fails_only_ret)
next
  case (Cons d ds)
  show ?case
    unfolding load_batches.simps
    by (intro fails_only_bind load_suites_fails_only Cons.IH assms)
qed

lemma load_assets_fails_only:
  assumes "\<And>x. P (Raised x)"
  shows "fails_only P (load_assets E a c)"
  unfolding load_assets_def
  by (intro fails_only_if fails_only_bind fails_only_extern fails_only_ret
      load_batches_fails_only assms)

lemma generate_artifact_fails_only:
  assumes "\<And>x. P (Raised x)"
  shows "fails_only P (generate_artifact E a r)"
  unfolding generate_artifact_def Let_def
  by (intro fails_only_if fails_only_bind fails_only_extern fails_only_ret assms)

lemma run_accepted:
  assumes one: "supplied_modes a = 1"
  shows "snd (run E a) \<noteq> Inl (ValueError msg)"
proof -
  have "fails_only (\<lambda>e. e \<noteq> ValueError msg)
      (bind (load_context E a) (\<lambda>c.
         bind (load_assets E a c)
           (\<lambda>(assets, operator).
              bind (extern
                      (Run_validation_operator c operator assets (run_id E a)
                         (evaluation_parameters a))
                      (run_validation_operator E c operator assets (run_id E a)
                         (evaluation_parameters a)))
                (\<lambda>res.
                   bind (generate_artifact E a res)
                     (\<lambda>_. if success res = Some False then raise (FAIL res)
                          else ret res)))))"
    (is "fails_only _ ?m")
    by (intro fails_only_if fails_only_case_prod fails_only_bind fails_only_extern
        fails_only_ret fails_only_raise load_context_fails_only load_assets_fails_only
        generate_artifact_fails_only) simp_all
  then have "snd ?m \<noteq> Inl (ValueError msg)"
    unfolding fails_only_def by blast
  moreover have "run E a = ?m"
    unfolding run_def using one by simp
  ultimately show ?thesis by simp
qed

lemma run_cong:
  assumes "load_context E a = load_context E a'"
    and "supplied_modes a = supplied_modes a'"
    and "supplied_modes a' = 1 \<Longrightarrow> load_assets E a = load_assets E a'"
    and "run_id E a = run_id E a'"
    and "evaluation_parameters a = evaluation_parameters a'"
    and "generate_artifact E a = generate_artifact E a'"
  shows "run E a = run E a'"
proof (cases "supplied_modes a' = 1")
  case True
  with assms show ?thesis by (simp add: run_def)
next
  case False
  with assms(1,2) show ?thesis by (simp add: run_def)
qed

lemma empty_assets_as_none:
  "run E (a\<lparr>assets_to_validate := Some []\<rparr>) = run E (a\<lparr>assets_to_validate := None\<rparr>)"
  by (rule run_cong)
    (simp_all add: load_context_def supplied_modes_def truthy_list_def load_assets_def
      run_id_def generate_artifact_def fun_eq_iff cong: option.case_cong)

lemma empty_batch_kwargs_as_none:
  "run E (a\<lparr>batch_kwargs := Some []\<rparr>) = run E (a\<lparr>batch_kwargs := None\<rparr>)"
proof (rule run_cong)
  assume "supplied_modes (a\<lparr>batch_kwargs := None\<rparr>) = 1"
  then have "truthy_list (assets_to_validate a) \<or> truthy_str (checkpoint_name a)"
    by (auto simp: supplied_modes_def truthy_dict_def of_bool_def split: if_splits)
  then show "load_assets E (a\<lparr>batch_kwargs := Some []\<rparr>) = load_assets E (a\<lparr>batch_kwargs := None\<rparr>)"
    by (auto simp: load_assets_def fun_eq_iff)
qed (simp_all add: load_context_def supplied_modes_def truthy_dict_def run_id_def
    generate_artifact_def fun_eq_iff cong: option.case_cong)

lemma run_rejected_outcome:
  "supplied_modes a \<noteq> 1 \<Longrightarrow>
   snd (run E a) =
     (case context_opt a of
        Some c \<Rightarrow> Inl (ValueError exclusive_message)
      | None \<Rightarrow>
          (case DataContext E (context_root_dir a) (or_dict (runtime_environment a)) of
             Inl x \<Rightarrow> Inl (Raised x)
           | Inr c \<Rightarrow> Inl (ValueError exclusive_message)))"
  by (simp add: run_def load_context_def snd_bind snd_extern ret_def raise_def
      split: option.splits sum.splits)

subsection \<open>What counts as a supplied mode\<close>

text \<open>
  Claim C9, as amended. A suite name and batch kwargs count as a supplied mode only
  together. A suite name without batch kwargs, or batch kwargs without a suite name, and no
  other mode, is rejected with the \<^verbatim>\<open>ValueError\<close> once the context is at hand: a context
  passed in, or one constructed without error; an exception raised by the construction
  propagates in place of the \<^verbatim>\<open>ValueError\<close>. A suite name without batch kwargs next to
  exactly one other mode is not rejected. A suite name with batch kwargs and no other mode
  is not rejected, and next to another mode it is rejected in the same way. An empty asset
  list and an empty batch kwargs dictionary behave as \<^verbatim>\<open>None\<close> does.
\<close>

theorem suite_and_batch_count_together:
  "(truthy_str (expectation_suite_name a) \<noteq> truthy_dict (batch_kwargs a) \<and>
    \<not> truthy_list (assets_to_validate a) \<and> \<not> truthy_str (checkpoint_name a) \<longrightarrow>
      snd (run E a) =
        (case context_opt a of
           Some c \<Rightarrow> Inl (ValueError exclusive_message)
         | None \<Rightarrow>
             (case DataContext E (context_root_dir a) (or_dict (runtime_environment a)) of
                Inl x \<Rightarrow> Inl (Raised x)
              | Inr c \<Rightarrow> Inl (ValueError exclusive_message)))) \<and>
   (truthy_str (expectation_suite_name a) \<and> \<not> truthy_dict (batch_kwargs a) \<and>
    truthy_list (assets_to_validate a) \<noteq> truthy_str (checkpoint_name a) \<longrightarrow>
      snd (run E a) \<noteq> Inl (ValueError exclusive_message)) \<and>
   (truthy_str (expectation_suite_name a) \<and> truthy_dict (batch_kwargs a) \<and>
    \<not> truthy_list (assets_to_validate a) \<and> \<not> truthy_str (checkpoint_name a) \<longrightarrow>
      snd (run E a) \<noteq> Inl (ValueError exclusive_message)) \<and>
   (truthy_str (expectation_suite_name a) \<and> truthy_dict (batch_kwargs a) \<and>
    (truthy_list (assets_to_validate a) \<or> truthy_str (checkpoint_name a)) \<longrightarrow>
      snd (run E a) =
        (case context_opt a of
           Some c \<Rightarrow> Inl (ValueError exclusive_message)
         | None \<Rightarrow>
             (case DataContext E (context_root_dir a) (or_dict (runtime_environment a)) of
                Inl x \<Rightarrow> Inl (Raised x)
              | Inr c \<Rightarrow> Inl (ValueError exclusive_message)))) \<and>
   run E (a\<lparr>assets_to_validate := Some []\<rparr>) = run E (a\<lparr>assets_to_validate := None\<rparr>) \<and>
   run E (a\<lparr>batch_kwargs := Some []\<rparr>) = run E (a\<lparr>batch_kwargs := None\<rparr>)"
proof (intro conjI impI)
  assume "truthy_str (expectation_suite_name a) \<noteq> truthy_dict (batch_kwargs a) \<and>
     \<not> truthy_list (assets_to_validate a) \<and> \<not> truthy_str (checkpoint_name a)"
  then have "supplied_modes a \<noteq> 1" by (auto simp: supplied_modes_def)
  then show "snd (run E a) =
        (case context_opt a of
           Some c \<Rightarrow> Inl (ValueError exclusive_message)
         | None \<Rightarrow>
             (case DataContext E (context_root_dir a) (or_dict (runtime_environment a)) of
                Inl x \<Rightarrow> Inl (Raised x)
              | Inr c \<Rightarrow> Inl (ValueError exclusive_message)))"
    by (rule run_rejected_outcome)
next
  assume "truthy_str (expectation_suite_name a) \<and> \<not> truthy_dict (batch_kwargs a) \<and>
     truthy_list (assets_to_validate a) \<noteq> truthy_str (checkpoint_name a)"
  then have "supplied_modes a = 1" by (auto simp: supplied_modes_def)
  then show "snd (run E a) \<noteq> Inl (ValueError exclusive_message)" by (rule run_accepted)
next
  assume "truthy_str (expectation_suite_name a) \<and> truthy_dict (batch_kwargs a) \<and>
    \<not> truthy_list (assets_to_validate a) \<and> \<not> truthy_str (checkpoint_name a)"
  then have "supplied_modes a = 1" by (auto simp: supplied_modes_def)
  then show "snd (run E a) \<noteq> Inl (ValueError exclusive_message)" by (rule run_accepted)
next
  assume "truthy_str (expectation_suite_name a) \<and> truthy_dict (batch_kwargs a) \<and>
    (truthy_list (assets_to_validate a) \<or> truthy_str (checkpoint_name a))"
  then have "supplied_modes a \<noteq> 1" by (auto simp: supplied_modes_def)
  then show "snd (run E a) =
        (case context_opt a of
           Some c \<Rightarrow> Inl (ValueError exclusive_message)
         | None \<Rightarrow>
             (case DataContext E (context_root_dir a) (or_dict (runtime_environment a)) of
                Inl x \<Rightarrow> Inl (Raised x)
              | Inr c \<Rightarrow> Inl (ValueError exclusive_message)))"
    by (rule run_rejected_outcome)
next
  show "run E (a\<lparr>assets_to_validate := Some []\<rparr>) = run E (a\<lparr>assets_to_validate := None\<rparr>)"
    by (rule empty_assets_as_none)
next
  show "run E (a\<lparr>batch_kwargs := Some []\<rparr>) = run E (a\<lparr>batch_kwargs := None\<rparr>)"
    by (rule empty_batch_kwargs_as_none)
qed

theorem suite_and_batch_count_together_witness:
  "truthy_str (expectation_suite_name suite_only_args)
     \<noteq> truthy_dict (batch_kwargs suite_only_args) \<and>
   \<not> truthy_list (assets_to_validate suite_only_args) \<and>
   \<not> truthy_str (checkpoint_name suite_only_args) \<and>
   snd (run demo_engine suite_only_args) = Inl (ValueError exclusive_message) \<and>
   truthy_str (expectation_suite_name suite_and_checkpoint_args) \<and>
   \<not> truthy_dict (batch_kwargs suite_and_checkpoint_args) \<and>
   truthy_list (assets_to_validate suite_and_checkpoint_args)
     \<noteq> truthy_str (checkpoint_name suite_and_checkpoint_args) \<and>
   snd (run demo_engine suite_and_checkpoint_args) \<noteq> Inl (ValueError exclusive_message) \<and>
   truthy_str (expectation_suite_name suite_args) \<and>
   truthy_dict (batch_kwargs suite_args) \<and>
   \<not> truthy_list (assets_to_validate suite_args) \<and>
   \<not> truthy_str (checkpoint_name suite_args) \<and>
   snd (run demo_engine suite_args) \<noteq> Inl (ValueError exclusive_message) \<and>
   truthy_str (expectation_suite_name suite_batch_and_checkpoint_args) \<and>
   truthy_dict (batch_kwargs suite_batch_and_checkpoint_args) \<and>
   truthy_str (checkpoint_name suite_batch_and_checkpoint_args) \<and>
   snd (run demo_engine suite_batch_and_checkpoint_args) = Inl (ValueError exclusive_message) \<and>
   snd (run no_project_engine suite_name_args)
     = Inl (Raised (Exn ''no project configuration found'')) \<and>
   run demo_engine (suite_and_checkpoint_args\<lparr>assets_to_validate := Some []\<rparr>)
     = run demo_engine (suite_and_checkpoint_args\<lparr>assets_to_validate := None\<rparr>) \<and>
   run demo_engine (suite_and_checkpoint_args\<lparr>batch_kwargs := Some []\<rparr>)
     = run demo_engine (suite_and_checkpoint_args\<lparr>batch_kwargs := None\<rparr>)"
proof -
  have s1: "truthy_str (expectation_suite_name suite_only_args)
      \<noteq> truthy_dict (batch_kwargs suite_only_args)"
    and l1: "\<not> truthy_list (assets_to_validate suite_only_args)"
    and n1: "\<not> truthy_str (checkpoint_name suite_only_args)"
    and c1: "context_opt suite_only_args = Some (Ctx 7)"
    by (simp_all add: truthy_str_def truthy_dict_def truthy_list_def suite_only_args_def
        default_args_def)
  have s2: "truthy_str (expectation_suite_name suite_and_checkpoint_args)"
    and k2: "\<not> truthy_dict (batch_kwargs suite_and_checkpoint_args)"
    and m2: "truthy_list (assets_to_validate suite_and_checkpoint_args)
      \<noteq> truthy_str (checkpoint_name suite_and_checkpoint_args)"
    by (simp_all add: truthy_str_def truthy_dict_def truthy_list_def
        suite_and_checkpoint_args_def checkpoint_args_def default_args_def)
  have s3: "truthy_str (expectation_suite_name suite_args)"
    and k3: "truthy_dict (batch_kwargs suite_args)"
    and l3: "\<not> truthy_list (assets_to_validate suite_args)"
    and n3: "\<not> truthy_str (checkpoint_name suite_args)"
    by (simp_all add: truthy_str_def truthy_dict_def truthy_list_def suite_args_def
        default_args_def)
  have s4: "truthy_str (expectation_suite_name suite_batch_and_checkpoint_args)"
    and k4: "truthy_dict (batch_kwargs suite_batch_and_checkpoint_args)"
    and n4: "truthy_str (checkpoint_name suite_batch_and_checkpoint_args)"
    and c4: "context_opt suite_batch_and_checkpoint_args = Some (Ctx 7)"
    by (simp_all add: truthy_str_def truthy_dict_def truthy_list_def
        suite_batch_and_checkpoint_args_def suite_args_def default_args_def)
  have s5: "truthy_str (expectation_suite_name suite_name_args)
      \<noteq> truthy_dict (batch_kwargs suite_name_args)"
    and l5: "\<not> truthy_list (assets_to_validate suite_name_args)"
    and n5: "\<not> truthy_str (checkpoint_name suite_name_args)"
    and c5: "context_opt suite_name_args = None"
    and d5: "DataContext no_project_engine root env
      = Inl (Exn ''no project configuration found'')" for root env
    by (simp_all add: truthy_str_def truthy_dict_def truthy_list_def suite_name_args_def
        default_args_def no_project_engine_def demo_engine_def)
  have r1: "snd (run demo_engine suite_only_args) = Inl (ValueError exclusive_message)"
    using suite_and_batch_count_together [of suite_only_args demo_engine] s1 l1 n1
    by (simp add: c1)
  have r2: "snd (run demo_engine suite_and_checkpoint_args) \<noteq> Inl (ValueError exclusive_message)"
    using suite_and_batch_count_together [of suite_and_checkpoint_args demo_engine] s2 k2 m2
    by blast
  have r3: "snd (run demo_engine suite_args) \<noteq> Inl (ValueError exclusive_message)"
    using suite_and_batch_count_together [of suite_args demo_engine] s3 k3 l3 n3
    by blast
  have r4: "snd (run demo_engine suite_batch_and_checkpoint_args)
      = Inl (ValueError exclusive_message)"
    using suite_and_batch_count_together [of suite_batch_and_checkpoint_args demo_engine]
      s4 k4 n4
    by (simp add: c4)
  have r5: "snd (run no_project_engine suite_name_args)
      = Inl (Raised (Exn ''no project configuration found''))"
    using suite_and_batch_count_together [of suite_name_args no_project_engine] s5 l5 n5
    by (simp add: c5 d5)
  from suite_and_batch_count_together [of suite_and_checkpoint_args demo_engine]
    s1 l1 n1 r1 s2 k2 m2 r2 s3 k3 l3 n3 r3 s4 k4 n4 r4 r5
  show ?thesis by blast
qed

text \<open>
  Claim C9 as it is stated fails: a suite name alone, without a context, where no project
  is found: the run ends in the exception of the constructor, not in the \<^verbatim>\<open>ValueError\<close>.
\<close>

theorem suite_name_alone_meets_constructor:
  "truthy_str (expectation_suite_name suite_name_args) \<and>
   \<not> truthy_dict (batch_kwargs suite_name_args) \<and>
   \<not> truthy_list (assets_to_validate suite_name_args) \<and>
   \<not> truthy_str (checkpoint_name suite_name_args) \<and>
   snd (run no_project_engine suite_name_args)
     = Inl (Raised (Exn ''no project configuration found'')) \<and>
   snd (run no_project_engine suite_name_args) \<noteq> Inl (ValueError exclusive_message)"
  by (simp add: demo_defs more_defs run_defs)

end
